theory Spec2Isabelle
  imports Main
begin

section \<open>JavaScript values\<close>

text \<open>
  The dispatcher of \<^verbatim>\<open>lib/src/entity-dispatcher.ts\<close> is generic in the entity type
  and forwards keys, entities and patterns of type \<^verbatim>\<open>any\<close>, so its arguments and
  payloads are run-time JavaScript values. Numbers are integers here: the dispatcher
  never computes with a number, it only inspects its \<^verbatim>\<open>typeof\<close> and passes it on.
  An object is its list of own properties (the first entry of a name is the one read).
\<close>

datatype jsval =
    Undefined
  | Null
  | Boolean bool
  | Number int
  | String string
  | Object "(string \<times> jsval) list"
  | Array "jsval list"

text \<open>The \<^verbatim>\<open>typeof\<close> operator: \<^verbatim>\<open>null\<close>, objects and arrays are all \<^verbatim>\<open>'object'\<close>.\<close>

fun typeof :: "jsval \<Rightarrow> string" where
  "typeof Undefined = ''undefined''"
| "typeof Null = ''object''"
| "typeof (Boolean b) = ''boolean''"
| "typeof (Number n) = ''number''"
| "typeof (String s) = ''string''"
| "typeof (Object ps) = ''object''"
| "typeof (Array xs) = ''object''"

text \<open>
  What a call can throw: the \<^verbatim>\<open>TypeError\<close> of a property read on \<^verbatim>\<open>null\<close> or
  \<^verbatim>\<open>undefined\<close>, or whatever value a configured \<^verbatim>\<open>selectId\<close> throws.
\<close>

datatype error = TypeError | Thrown jsval

text \<open>
  The property read \<^verbatim>\<open>v.name\<close> for a name that no prototype defines (such as
  \<^verbatim>\<open>id\<close>): it throws on \<^verbatim>\<open>null\<close> and \<^verbatim>\<open>undefined\<close>, reads the own property of
  an object, and is \<^verbatim>\<open>undefined\<close> where the property is missing, on a primitive and on
  an array.
\<close>

fun getProp :: "jsval \<Rightarrow> string \<Rightarrow> error + jsval" where
  "getProp Undefined name = Inl TypeError"
| "getProp Null name = Inl TypeError"
| "getProp (Object ps) name = (case map_of ps name of None \<Rightarrow> Inr Undefined | Some v \<Rightarrow> Inr v)"
| "getProp v name = Inr Undefined"

text \<open>
  \<^verbatim>\<open>Array.prototype.map\<close> with a callback that may throw: the elements are visited in
  order and the first exception ends the call.
\<close>

fun array_map :: "('a \<Rightarrow> error + 'b) \<Rightarrow> 'a list \<Rightarrow> error + 'b list" where
  "array_map f [] = Inr []"
| "array_map f (x # xs) =
     (case f x of
        Inl e \<Rightarrow> Inl e
      | Inr y \<Rightarrow> (case array_map f xs of Inl e \<Rightarrow> Inl e | Inr ys \<Rightarrow> Inr (y # ys)))"

section \<open>Actions and the store\<close>

text \<open>
  Modelled from the spec: the \<^verbatim>\<open>EntityOp\<close> vocabulary of \<^verbatim>\<open>entity.actions\<close>, which is
  not among the sources. The dispatcher uses the fifteen command operations; the
  success and error operations are those of the reconciliation protocol.
\<close>

datatype EntityOp =
    QUERY_ALL | QUERY_ALL_SUCCESS | QUERY_ALL_ERROR
  | QUERY_MANY | QUERY_MANY_SUCCESS | QUERY_MANY_ERROR
  | QUERY_BY_KEY | QUERY_BY_KEY_SUCCESS | QUERY_BY_KEY_ERROR
  | SAVE_ADD | SAVE_ADD_SUCCESS | SAVE_ADD_ERROR
  | SAVE_DELETE | SAVE_DELETE_SUCCESS | SAVE_DELETE_ERROR
  | SAVE_UPDATE | SAVE_UPDATE_SUCCESS | SAVE_UPDATE_ERROR
  | ADD_ALL | ADD_MANY | ADD_ONE
  | REMOVE_ALL | REMOVE_MANY | REMOVE_ONE
  | UPDATE_MANY | UPDATE_ONE
  | SET_FILTER

text \<open>
  Modelled from the spec: \<^verbatim>\<open>new EntityAction(entityName, op, payload)\<close> is the tuple of
  entity type name, operation and optional payload; an omitted payload is
  \<^verbatim>\<open>undefined\<close>.
\<close>

datatype EntityAction =
  EntityAction (action_entityName: string) (action_op: EntityOp) (action_payload: jsval)

text \<open>
  Modelled from the spec: a collection of the cache. \<open>entities\<close> maps a key to its
  entity, \<open>extension\<close> holds the fields of \<^verbatim>\<open>additionalCollectionState\<close>.
\<close>

record EntityCollection =
  ids :: "jsval list"
  entities :: "jsval \<rightharpoonup> jsval"
  loading :: bool
  filter_pattern :: jsval
  extension :: "string \<rightharpoonup> jsval"

type_synonym EntityCache = "string \<rightharpoonup> EntityCollection"

text \<open>
  Modelled from the spec: the store of \<^verbatim>\<open>@ngrx/store\<close>, an external collaborator. It
  owns the current \<^verbatim>\<open>EntityCache\<close> and the queue of the actions dispatched to it;
  \<^verbatim>\<open>store.dispatch(action)\<close> enqueues one action.
\<close>

record Store =
  state :: EntityCache
  dispatched :: "EntityAction list"

definition store_dispatch :: "EntityAction \<Rightarrow> Store \<Rightarrow> Store" where
  "store_dispatch a s = s\<lparr>dispatched := dispatched s @ [a]\<rparr>"

section \<open>The dispatcher\<close>

type_synonym IdSelector = "jsval \<Rightarrow> error + jsval"

text \<open>The default of the \<^verbatim>\<open>selectId\<close> parameter: \<^verbatim>\<open>(entity: any) => entity.id\<close>.\<close>

definition defaultSelectId :: IdSelector where
  "defaultSelectId entity = getProp entity ''id''"

text \<open>
  The fields of the class. The store is not a field of the record: it is the state that
  every command takes and returns.
\<close>

record EntityDispatcher =
  entityName :: string
  selectId :: IdSelector

text \<open>
  The constructor; \<open>None\<close> is an omitted \<^verbatim>\<open>selectId\<close> argument, for which the
  parameter's default is taken.
\<close>

definition new_EntityDispatcher :: "string \<Rightarrow> IdSelector option \<Rightarrow> EntityDispatcher" where
  "new_EntityDispatcher name sel =
     \<lparr>entityName = name,
      selectId = (case sel of None \<Rightarrow> defaultSelectId | Some f \<Rightarrow> f)\<rparr>"

definition createEntityDispatcher :: "string \<Rightarrow> IdSelector option \<Rightarrow> EntityDispatcher" where
  "createEntityDispatcher name sel =
     new_EntityDispatcher name
       (Some (case sel of None \<Rightarrow> (\<lambda>entity. getProp entity ''id'') | Some f \<Rightarrow> f))"

text \<open>
  A command is a \<^verbatim>\<open>void\<close> method: it takes the store and returns the store it leaves,
  with \<open>Some e\<close> when it ended by throwing \<open>e\<close> and \<open>None\<close> when it returned.
\<close>

type_synonym cmd = "Store \<Rightarrow> error option \<times> Store"

definition return_void :: cmd where
  "return_void s = (None, s)"

definition throw :: "error \<Rightarrow> cmd" where
  "throw e s = (Some e, s)"

definition dispatch :: "EntityDispatcher \<Rightarrow> EntityOp \<Rightarrow> jsval \<Rightarrow> cmd" where
  "dispatch d op payload s =
     (None, store_dispatch (EntityAction (entityName d) op payload) s)"

definition toUpdate :: "EntityDispatcher \<Rightarrow> jsval \<Rightarrow> error + jsval" where
  "toUpdate d entity =
     (case selectId d entity of
        Inl e \<Rightarrow> Inl e
      | Inr k \<Rightarrow> Inr (Object [(''id'', k), (''changes'', entity)]))"

definition getKey :: "EntityDispatcher \<Rightarrow> jsval \<Rightarrow> error + jsval" where
  "getKey d arg = (if typeof arg = ''object'' then selectId d arg else Inr arg)"

definition add :: "EntityDispatcher \<Rightarrow> jsval \<Rightarrow> cmd" where
  "add d entity = dispatch d SAVE_ADD entity"

definition delete :: "EntityDispatcher \<Rightarrow> jsval \<Rightarrow> cmd" where
  "delete d arg =
     (case getKey d arg of Inl e \<Rightarrow> throw e | Inr k \<Rightarrow> dispatch d SAVE_DELETE k)"

definition getAll :: "EntityDispatcher \<Rightarrow> cmd" where
  "getAll d = dispatch d QUERY_ALL Undefined"

definition getByKey :: "EntityDispatcher \<Rightarrow> jsval \<Rightarrow> cmd" where
  "getByKey d key = dispatch d QUERY_BY_KEY key"

definition getWithQuery :: "EntityDispatcher \<Rightarrow> jsval \<Rightarrow> cmd" where
  "getWithQuery d queryParams = dispatch d QUERY_MANY queryParams"

definition update :: "EntityDispatcher \<Rightarrow> jsval \<Rightarrow> cmd" where
  "update d entity =
     (case toUpdate d entity of Inl e \<Rightarrow> throw e | Inr u \<Rightarrow> dispatch d SAVE_UPDATE u)"

definition addAllToCache :: "EntityDispatcher \<Rightarrow> jsval \<Rightarrow> cmd" where
  "addAllToCache d entities_arg = dispatch d ADD_ALL entities_arg"

definition addOneToCache :: "EntityDispatcher \<Rightarrow> jsval \<Rightarrow> cmd" where
  "addOneToCache d entity = dispatch d ADD_ONE entity"

definition addManyToCache :: "EntityDispatcher \<Rightarrow> jsval \<Rightarrow> cmd" where
  "addManyToCache d entities_arg = dispatch d ADD_MANY entities_arg"

definition clearCache :: "EntityDispatcher \<Rightarrow> cmd" where
  "clearCache d = dispatch d REMOVE_ALL Undefined"

definition removeOneFromCache :: "EntityDispatcher \<Rightarrow> jsval \<Rightarrow> cmd" where
  "removeOneFromCache d arg =
     (case getKey d arg of Inl e \<Rightarrow> throw e | Inr k \<Rightarrow> dispatch d REMOVE_ONE k)"

text \<open>
  The argument of the two array commands that inspect it is an array or absent:
  \<open>None\<close> is \<^verbatim>\<open>null\<close> or \<^verbatim>\<open>undefined\<close> (the guard \<^verbatim>\<open>!args\<close> treats both alike),
  \<open>Some xs\<close> the array of the elements \<open>xs\<close>. The first element is read only after the
  guard has excluded the empty array.
\<close>

definition removeManyFromCache :: "EntityDispatcher \<Rightarrow> jsval list option \<Rightarrow> cmd" where
  "removeManyFromCache d args =
     (case args of
        None \<Rightarrow> return_void
      | Some [] \<Rightarrow> return_void
      | Some (a0 # rest) \<Rightarrow>
          (if typeof a0 = ''object''
           then (case array_map (getKey d) (a0 # rest) of
                   Inl e \<Rightarrow> throw e
                 | Inr keys \<Rightarrow> dispatch d REMOVE_MANY (Array keys))
           else dispatch d REMOVE_MANY (Array (a0 # rest))))"

definition updateOneInCache :: "EntityDispatcher \<Rightarrow> jsval \<Rightarrow> cmd" where
  "updateOneInCache d entity =
     (case toUpdate d entity of Inl e \<Rightarrow> throw e | Inr u \<Rightarrow> dispatch d UPDATE_ONE u)"

definition updateManyInCache :: "EntityDispatcher \<Rightarrow> jsval list option \<Rightarrow> cmd" where
  "updateManyInCache d entities_arg =
     (case entities_arg of
        None \<Rightarrow> return_void
      | Some [] \<Rightarrow> return_void
      | Some (e0 # rest) \<Rightarrow>
          (case array_map (toUpdate d) (e0 # rest) of
             Inl e \<Rightarrow> throw e
           | Inr updates \<Rightarrow> dispatch d UPDATE_MANY (Array updates)))"

definition setFilter :: "EntityDispatcher \<Rightarrow> jsval \<Rightarrow> cmd" where
  "setFilter d pattern = dispatch d SET_FILTER pattern"

text \<open>
  One call of a public method of the dispatcher (the \<^verbatim>\<open>EntityCommands\<close> interface),
  with its arguments.
\<close>

datatype command =
    Add jsval
  | Delete jsval
  | GetAll
  | GetByKey jsval
  | GetWithQuery jsval
  | Update jsval
  | AddAllToCache jsval
  | AddOneToCache jsval
  | AddManyToCache jsval
  | ClearCache
  | RemoveOneFromCache jsval
  | RemoveManyFromCache "jsval list option"
  | UpdateOneInCache jsval
  | UpdateManyInCache "jsval list option"
  | SetFilter jsval

fun invoke :: "EntityDispatcher \<Rightarrow> command \<Rightarrow> cmd" where
  "invoke d (Add e) = add d e"
| "invoke d (Delete a) = delete d a"
| "invoke d GetAll = getAll d"
| "invoke d (GetByKey k) = getByKey d k"
| "invoke d (GetWithQuery q) = getWithQuery d q"
| "invoke d (Update e) = update d e"
| "invoke d (AddAllToCache es) = addAllToCache d es"
| "invoke d (AddOneToCache e) = addOneToCache d e"
| "invoke d (AddManyToCache es) = addManyToCache d es"
| "invoke d ClearCache = clearCache d"
| "invoke d (RemoveOneFromCache a) = removeOneFromCache d a"
| "invoke d (RemoveManyFromCache as) = removeManyFromCache d as"
| "invoke d (UpdateOneInCache e) = updateOneInCache d e"
| "invoke d (UpdateManyInCache es) = updateManyInCache d es"
| "invoke d (SetFilter p) = setFilter d p"

text \<open>The actions that a run from the store \<open>s\<close> to the store \<open>s'\<close> has enqueued.\<close>

definition new_actions :: "Store \<Rightarrow> Store \<Rightarrow> EntityAction list" where
  "new_actions s s' = drop (length (dispatched s)) (dispatched s')"

text \<open>
  A raw key, as the signatures of the remove commands have it: \<^verbatim>\<open>number | string\<close>.
\<close>

definition is_key :: "jsval \<Rightarrow> bool" where
  "is_key v = (typeof v = ''number'' \<or> typeof v = ''string'')"

text \<open>
  The empty cache of the selector tests (\<^verbatim>\<open>const emptyCache: EntityCache = {}\<close>) and a
  store on it to which nothing has been dispatched yet.
\<close>

definition emptyCache :: EntityCache where
  "emptyCache = Map.empty"

definition emptyStore :: Store where
  "emptyStore = \<lparr>state = emptyCache, dispatched = []\<rparr>"

section \<open>Selectors and their live views\<close>

text \<open>
  Modelled from the spec: \<^verbatim>\<open>entity.selectors\<close> and \<^verbatim>\<open>entity.selectors$\<close> are not among
  the sources, only the tests of the latter are. The empty collection is the
  well-defined default of the spec: no entities, not loading, no extension field.
\<close>

definition createEmptyEntityCollection :: EntityCollection where
  "createEmptyEntityCollection =
     \<lparr>ids = [], entities = Map.empty, loading = False, filter_pattern = Undefined,
      extension = Map.empty\<rparr>"

text \<open>
  Modelled from the spec: the collection selector reads the collection of the entity type
  from the cache and substitutes the default collection state while the cache has none;
  \<open>None\<close> is an omitted default state, for which the empty collection is taken.
\<close>

definition createCachedCollectionSelector ::
  "string \<Rightarrow> EntityCollection option \<Rightarrow> EntityCache \<Rightarrow> EntityCollection" where
  "createCachedCollectionSelector name initialState cache =
     (case cache name of
        Some collection \<Rightarrow> collection
      | None \<Rightarrow>
          (case initialState of
             Some dflt \<Rightarrow> dflt
           | None \<Rightarrow> createEmptyEntityCollection))"

text \<open>
  Modelled from the spec: the pure selectors. \<open>selectEntities\<close> is all entities as a
  sequence ordered by \<open>ids\<close>; a field that the collection does not have reads as
  \<^verbatim>\<open>undefined\<close>.
\<close>

definition selectEntities :: "EntityCollection \<Rightarrow> jsval list" where
  "selectEntities c =
     map (\<lambda>k. case entities c k of None \<Rightarrow> Undefined | Some e \<Rightarrow> e) (ids c)"

definition selectLoading :: "EntityCollection \<Rightarrow> bool" where
  "selectLoading c = loading c"

definition selectField :: "string \<Rightarrow> EntityCollection \<Rightarrow> jsval" where
  "selectField name c = (case extension c name of None \<Rightarrow> Undefined | Some v \<Rightarrow> v)"

text \<open>
  Modelled from the spec: the live views of \<^verbatim>\<open>EntitySelectors$Factory.create\<close>. A view
  gives the value that it emits while the store is in a given state: the pure selector
  applied to what the collection selector returns for the cache of that state.
\<close>

record EntitySelectors_S =
  entities_S :: "Store \<Rightarrow> jsval list"
  loading_S :: "Store \<Rightarrow> bool"
  field_S :: "string \<Rightarrow> Store \<Rightarrow> jsval"

definition create_EntitySelectors_S ::
  "string \<Rightarrow> EntityCollection option \<Rightarrow> EntitySelectors_S" where
  "create_EntitySelectors_S name defaultCollectionState =
     \<lparr>entities_S =
        (\<lambda>s. selectEntities (createCachedCollectionSelector name defaultCollectionState (state s))),
      loading_S =
        (\<lambda>s. selectLoading (createCachedCollectionSelector name defaultCollectionState (state s))),
      field_S =
        (\<lambda>f s. selectField f (createCachedCollectionSelector name defaultCollectionState (state s)))\<rparr>"

text \<open>
  Modelled from the spec: subscribing to a view yields its emission for the current state
  of the store, and the store after the subscription.
\<close>

definition subscribe :: "(Store \<Rightarrow> 'a) \<Rightarrow> Store \<Rightarrow> 'a \<times> Store" where
  "subscribe view s = (view s, s)"

text \<open>
  The default collection state that the selector tests supply:
  \<^verbatim>\<open>{ ids: [1], entities: {1: {id: 1, name: 'A'}}, filter: '', loading: false,
    foo: 'foo foo', bar: 42 }\<close>.
\<close>

definition defaultHeroState :: EntityCollection where
  "defaultHeroState =
     \<lparr>ids = [Number 1],
      entities = [Number 1 \<mapsto> Object [(''id'', Number 1), (''name'', String ''A'')]],
      loading = False,
      filter_pattern = String [],
      extension = [''foo'' \<mapsto> String ''foo foo'', ''bar'' \<mapsto> Number 42]\<rparr>"

section \<open>Outcome of a call\<close>

text \<open>
  What a call does to the store does not depend on the store: it appends a fixed list of
  at most one action to the queue, and that list is empty when the call throws.
\<close>

definition fixed_outcome :: "cmd \<Rightarrow> bool" where
  "fixed_outcome m =
     (\<exists>r acts. length acts \<le> Suc 0 \<and>
        (\<forall>s. m s = (r, s\<lparr>dispatched := dispatched s @ acts\<rparr>)) \<and>
        (acts = []) = (r \<noteq> None))"

text \<open>
  The calls that the guards of the two array commands end before any dispatch: an absent
  or empty array.
\<close>

definition guarded_noop :: "command \<Rightarrow> bool" where
  "guarded_noop c =
     (c = RemoveManyFromCache None \<or> c = RemoveManyFromCache (Some []) \<or>
      c = UpdateManyInCache None \<or> c = UpdateManyInCache (Some []))"

section \<open>Auxiliary facts\<close>

lemma array_map_Inr_iff:
  "array_map f xs = Inr ys \<longleftrightarrow> list_all2 (\<lambda>x y. f x = Inr y) xs ys"
proof (induction xs arbitrary: ys)
  case Nil
  then show ?case by auto
next
  case (Cons x xs)
  show ?case
    by (cases ys) (auto split: sum.splits simp: Cons.IH [symmetric])
qed

lemma list_all2_choice:
  "\<forall>x \<in> set xs. \<exists>y. P x y \<Longrightarrow> \<exists>ys. list_all2 P xs ys"
proof (induction xs)
  case Nil
  then show ?case by simp
next
  case (Cons x xs)
  then obtain y ys where "P x y" "list_all2 P xs ys" by auto
  then have "list_all2 P (x # xs) (y # ys)" by simp
  then show ?case by blast
qed

lemma array_map_Inl_iff:
  "(\<exists>e. array_map f xs = Inl e) \<longleftrightarrow> (\<exists>x\<in>set xs. \<exists>e. f x = Inl e)"
  by (induction xs) (auto split: sum.splits)

lemma fixed_outcome_throw: "fixed_outcome (throw e)"
  unfolding fixed_outcome_def
  by (rule exI [of _ "Some e"], rule exI [of _ "[]"]) (simp add: throw_def)

lemma fixed_outcome_dispatch: "fixed_outcome (dispatch d op p)"
  unfolding fixed_outcome_def
  by (rule exI [of _ "None"], rule exI [of _ "[EntityAction (entityName d) op p]"])
    (simp add: dispatch_def store_dispatch_def)

lemma invoke_fixed_outcome: "\<not> guarded_noop c \<Longrightarrow> fixed_outcome (invoke d c)"
  by (cases c)
    (auto simp: guarded_noop_def add_def delete_def getAll_def getByKey_def
      getWithQuery_def update_def addAllToCache_def addOneToCache_def addManyToCache_def
      clearCache_def removeOneFromCache_def removeManyFromCache_def updateOneInCache_def
      updateManyInCache_def setFilter_def fixed_outcome_throw fixed_outcome_dispatch
      split: sum.splits option.splits list.splits)

lemma invoke_guarded_noop: "guarded_noop c \<Longrightarrow> invoke d c s = (None, s)"
  by (auto simp: guarded_noop_def removeManyFromCache_def updateManyInCache_def
      return_void_def)

lemma invoke_outcome:
  "\<exists>r acts. length acts \<le> Suc 0 \<and>
     (\<forall>s. invoke d c s = (r, s\<lparr>dispatched := dispatched s @ acts\<rparr>)) \<and>
     (acts = []) = (r \<noteq> None \<or> guarded_noop c)"
proof (cases "guarded_noop c")
  case True
  then have "\<forall>s. invoke d c s = (None, s\<lparr>dispatched := dispatched s @ []\<rparr>)"
    by (simp add: invoke_guarded_noop)
  with True show ?thesis
    by (intro exI [of _ None] exI [of _ "[]"]) simp
next
  case False
  with invoke_fixed_outcome [OF False, of d] show ?thesis
    unfolding fixed_outcome_def by simp
qed

lemma entityName_new [simp]:
  "entityName (new_EntityDispatcher name sel) = name"
  "entityName (createEntityDispatcher name sel) = name"
  by (simp_all add: new_EntityDispatcher_def createEntityDispatcher_def)

lemma new_actions_append [simp]:
  "new_actions s (s\<lparr>dispatched := dispatched s @ acts\<rparr>) = acts"
  by (simp add: new_actions_def)

section \<open>Guards of the array commands\<close>

text \<open>
  C9: \<^verbatim>\<open>updateManyInCache\<close> called with an absent (\<^verbatim>\<open>null\<close> or \<^verbatim>\<open>undefined\<close>) or empty
  array returns without throwing and leaves the store as it was: no \<^verbatim>\<open>UPDATE_MANY\<close>
  action, and no other action, is enqueued.
\<close>

theorem updateManyInCache_absent_or_empty:
  "updateManyInCache d None s = (None, s) \<and> updateManyInCache d (Some []) s = (None, s) \<and>
   new_actions s (snd (updateManyInCache d None s)) = [] \<and>
   new_actions s (snd (updateManyInCache d (Some []) s)) = []"
  by (simp add: updateManyInCache_def return_void_def new_actions_def)

text \<open>
  C3 (as amended): \<^verbatim>\<open>removeManyFromCache\<close> called with an absent or empty array returns
  without throwing and dispatches nothing. For a non-empty array the type of the first
  element alone decides: when it is not an object, exactly one \<^verbatim>\<open>REMOVE_MANY\<close> action is
  dispatched whose payload is the argument array, unchanged; when it is an object, every
  element goes through \<^verbatim>\<open>getKey\<close> and exactly one \<^verbatim>\<open>REMOVE_MANY\<close> action with the array of
  the results is dispatched, unless \<^verbatim>\<open>selectId\<close> throws on an element, in which case the
  error reaches the caller and nothing is dispatched. The payload is an array of keys
  when the array holds raw keys only, and when it holds only objects for which
  \<^verbatim>\<open>selectId\<close> returns a raw key.
\<close>

theorem removeManyFromCache_guard_and_payload:
  "removeManyFromCache d None s = (None, s) \<and>
   removeManyFromCache d (Some []) s = (None, s) \<and>
   (typeof a0 \<noteq> ''object'' \<longrightarrow>
      removeManyFromCache d (Some (a0 # rest)) s =
        (None, store_dispatch (EntityAction (entityName d) REMOVE_MANY (Array (a0 # rest))) s)) \<and>
   (typeof a0 = ''object'' \<longrightarrow>
      removeManyFromCache d (Some (a0 # rest)) s =
        (case array_map (getKey d) (a0 # rest) of
           Inl e \<Rightarrow> (Some e, s)
         | Inr keys \<Rightarrow>
             (None, store_dispatch (EntityAction (entityName d) REMOVE_MANY (Array keys)) s))) \<and>
   ((\<forall>x \<in> set (a0 # rest). is_key x) \<longrightarrow>
      removeManyFromCache d (Some (a0 # rest)) s =
        (None, store_dispatch (EntityAction (entityName d) REMOVE_MANY (Array (a0 # rest))) s)) \<and>
   ((\<forall>x \<in> set (a0 # rest). typeof x = ''object'' \<and> (\<exists>k. selectId d x = Inr k \<and> is_key k)) \<longrightarrow>
      (\<exists>keys. removeManyFromCache d (Some (a0 # rest)) s =
          (None, store_dispatch (EntityAction (entityName d) REMOVE_MANY (Array keys)) s) \<and>
        list_all2 (\<lambda>x k. selectId d x = Inr k) (a0 # rest) keys \<and>
        (\<forall>k \<in> set keys. is_key k)))"
proof -
  have guard: "removeManyFromCache d None s = (None, s)"
    "removeManyFromCache d (Some []) s = (None, s)"
    by (simp_all add: removeManyFromCache_def return_void_def)
  have prim: "typeof a0 \<noteq> ''object'' \<longrightarrow>
      removeManyFromCache d (Some (a0 # rest)) s =
        (None, store_dispatch (EntityAction (entityName d) REMOVE_MANY (Array (a0 # rest))) s)"
    by (simp add: removeManyFromCache_def dispatch_def)
  have obj: "typeof a0 = ''object'' \<longrightarrow>
      removeManyFromCache d (Some (a0 # rest)) s =
        (case array_map (getKey d) (a0 # rest) of
           Inl e \<Rightarrow> (Some e, s)
         | Inr keys \<Rightarrow>
             (None, store_dispatch (EntityAction (entityName d) REMOVE_MANY (Array keys)) s))"
    by (simp add: removeManyFromCache_def dispatch_def throw_def split: sum.splits)
  have keys: "(\<forall>x \<in> set (a0 # rest). is_key x) \<longrightarrow>
      removeManyFromCache d (Some (a0 # rest)) s =
        (None, store_dispatch (EntityAction (entityName d) REMOVE_MANY (Array (a0 # rest))) s)"
    using prim by (auto simp: is_key_def)
  have ents: "(\<forall>x \<in> set (a0 # rest). typeof x = ''object'' \<and> (\<exists>k. selectId d x = Inr k \<and> is_key k)) \<longrightarrow>
      (\<exists>keys. removeManyFromCache d (Some (a0 # rest)) s =
          (None, store_dispatch (EntityAction (entityName d) REMOVE_MANY (Array keys)) s) \<and>
        list_all2 (\<lambda>x k. selectId d x = Inr k) (a0 # rest) keys \<and>
        (\<forall>k \<in> set keys. is_key k))"
  proof
    assume h: "\<forall>x \<in> set (a0 # rest). typeof x = ''object'' \<and> (\<exists>k. selectId d x = Inr k \<and> is_key k)"
    have ex: "\<forall>x \<in> set (a0 # rest). \<exists>k. selectId d x = Inr k \<and> is_key k"
      using h by blast
    obtain keys where
      ks: "list_all2 (\<lambda>x k. selectId d x = Inr k \<and> is_key k) (a0 # rest) keys"
      using list_all2_choice [OF ex] ..
    have sel: "list_all2 (\<lambda>x k. selectId d x = Inr k) (a0 # rest) keys"
      using ks by (rule list_all2_mono) simp
    have "list_all2 (\<lambda>x k. getKey d x = Inr k) (a0 # rest) keys"
      using ks
    proof (rule list.rel_mono_strong)
      fix x k
      assume x: "x \<in> set (a0 # rest)" and k: "selectId d x = Inr k \<and> is_key k"
      from h x have "typeof x = ''object''" by blast
      with k show "getKey d x = Inr k"
        by (simp add: getKey_def)
    qed
    then have am: "array_map (getKey d) (a0 # rest) = Inr keys"
      by (simp only: array_map_Inr_iff)
    have "typeof a0 = ''object''" using h by simp
    with obj am have run: "removeManyFromCache d (Some (a0 # rest)) s =
        (None, store_dispatch (EntityAction (entityName d) REMOVE_MANY (Array keys)) s)"
      by simp
    have "list_all2 (\<lambda>x k. is_key k) (a0 # rest) keys"
      using ks by (rule list_all2_mono) simp
    then have "\<forall>k \<in> set keys. is_key k"
      by (induction rule: list_all2_induct) simp_all
    with run sel show "\<exists>keys. removeManyFromCache d (Some (a0 # rest)) s =
          (None, store_dispatch (EntityAction (entityName d) REMOVE_MANY (Array keys)) s) \<and>
        list_all2 (\<lambda>x k. selectId d x = Inr k) (a0 # rest) keys \<and>
        (\<forall>k \<in> set keys. is_key k)"
      by blast
  qed
  show ?thesis
    using guard prim obj keys ents by (intro conjI) assumption+
qed

theorem removeManyFromCache_guard_and_payload_witness:
  "removeManyFromCache (new_EntityDispatcher ''Hero'' None) (Some [Number 1, String ''b'']) emptyStore =
     (None, store_dispatch
        (EntityAction ''Hero'' REMOVE_MANY (Array [Number 1, String ''b''])) emptyStore) \<and>
   removeManyFromCache (new_EntityDispatcher ''Hero'' None)
       (Some [Object [(''id'', Number 1)], Object [(''id'', String ''b'')]]) emptyStore =
     (None, store_dispatch
        (EntityAction ''Hero'' REMOVE_MANY (Array [Number 1, String ''b''])) emptyStore)"
  using
    removeManyFromCache_guard_and_payload [where d = "new_EntityDispatcher ''Hero'' None"
      and ?a0.0 = "Number 1" and rest = "[String ''b'']" and s = emptyStore]
    removeManyFromCache_guard_and_payload [where d = "new_EntityDispatcher ''Hero'' None"
      and ?a0.0 = "Object [(''id'', Number 1)]" and rest = "[Object [(''id'', String ''b'')]]"
      and s = emptyStore]
  by (simp add: is_key_def new_EntityDispatcher_def defaultSelectId_def getKey_def)

text \<open>
  C3 as stated fails: for an array that starts with a raw key and goes on with an
  entity, the one \<^verbatim>\<open>REMOVE_MANY\<close> action carries the array as it is, and its second
  element is the entity object, not a key.
\<close>

theorem removeManyFromCache_payload_not_keys_counterexample:
  "removeManyFromCache (new_EntityDispatcher ''Hero'' None)
       (Some [Number 1, Object [(''id'', Number 2)]]) emptyStore =
     (None, store_dispatch
        (EntityAction ''Hero'' REMOVE_MANY (Array [Number 1, Object [(''id'', Number 2)]]))
        emptyStore) \<and>
   \<not> is_key (Object [(''id'', Number 2)])"
  by (simp add: removeManyFromCache_def dispatch_def is_key_def)

text \<open>
  C10: the decision of \<^verbatim>\<open>removeManyFromCache\<close> between keys and entities is asymmetric.
  When the first element is an object, every element goes through \<^verbatim>\<open>getKey\<close>: where
  \<^verbatim>\<open>selectId\<close> returns on the objects of the array, the payload holds, position by
  position, the \<^verbatim>\<open>selectId\<close> of an object and a primitive as it is. When the first element
  is a primitive, the payload is the argument array as it is, whatever follows the first
  element, so an entity in a later position is forwarded unconverted.
\<close>

theorem removeManyFromCache_first_element_asymmetry:
  "(typeof a0 = ''object'' \<and>
    (\<forall>x \<in> set (a0 # rest). typeof x = ''object'' \<longrightarrow> (\<exists>k. selectId d x = Inr k)) \<longrightarrow>
      (\<exists>keys. removeManyFromCache d (Some (a0 # rest)) s =
          (None, store_dispatch (EntityAction (entityName d) REMOVE_MANY (Array keys)) s) \<and>
        list_all2 (\<lambda>x k. if typeof x = ''object'' then selectId d x = Inr k else k = x)
          (a0 # rest) keys)) \<and>
   (typeof a0 \<noteq> ''object'' \<longrightarrow>
      removeManyFromCache d (Some (a0 # rest)) s =
        (None, store_dispatch (EntityAction (entityName d) REMOVE_MANY (Array (a0 # rest))) s))"
proof (intro conjI impI)
  assume h: "typeof a0 = ''object'' \<and>
    (\<forall>x \<in> set (a0 # rest). typeof x = ''object'' \<longrightarrow> (\<exists>k. selectId d x = Inr k))"
  then have "\<forall>x \<in> set (a0 # rest). \<exists>k. getKey d x = Inr k"
    by (simp add: getKey_def)
  from list_all2_choice [OF this] obtain keys where
    ks: "list_all2 (\<lambda>x k. getKey d x = Inr k) (a0 # rest) keys" ..
  then have "array_map (getKey d) (a0 # rest) = Inr keys"
    by (simp only: array_map_Inr_iff)
  with h have run: "removeManyFromCache d (Some (a0 # rest)) s =
      (None, store_dispatch (EntityAction (entityName d) REMOVE_MANY (Array keys)) s)"
    by (simp add: removeManyFromCache_def dispatch_def)
  have "list_all2 (\<lambda>x k. if typeof x = ''object'' then selectId d x = Inr k else k = x)
      (a0 # rest) keys"
    using ks by (rule list_all2_mono) (auto simp: getKey_def split: if_splits)
  with run show "\<exists>keys. removeManyFromCache d (Some (a0 # rest)) s =
          (None, store_dispatch (EntityAction (entityName d) REMOVE_MANY (Array keys)) s) \<and>
        list_all2 (\<lambda>x k. if typeof x = ''object'' then selectId d x = Inr k else k = x)
          (a0 # rest) keys"
    by blast
next
  assume "typeof a0 \<noteq> ''object''"
  then show "removeManyFromCache d (Some (a0 # rest)) s =
      (None, store_dispatch (EntityAction (entityName d) REMOVE_MANY (Array (a0 # rest))) s)"
    by (simp add: removeManyFromCache_def dispatch_def)
qed

theorem removeManyFromCache_first_element_asymmetry_witness:
  "removeManyFromCache (new_EntityDispatcher ''Hero'' None)
       (Some [Object [(''id'', Number 2)], Number 1]) emptyStore =
     (None, store_dispatch
        (EntityAction ''Hero'' REMOVE_MANY (Array [Number 2, Number 1])) emptyStore) \<and>
   removeManyFromCache (new_EntityDispatcher ''Hero'' None)
       (Some [Number 1, Object [(''id'', Number 2)]]) emptyStore =
     (None, store_dispatch
        (EntityAction ''Hero'' REMOVE_MANY (Array [Number 1, Object [(''id'', Number 2)]]))
        emptyStore)"
  using
    removeManyFromCache_first_element_asymmetry [where d = "new_EntityDispatcher ''Hero'' None"
      and ?a0.0 = "Object [(''id'', Number 2)]" and rest = "[Number 1]" and s = emptyStore]
    removeManyFromCache_first_element_asymmetry [where d = "new_EntityDispatcher ''Hero'' None"
      and ?a0.0 = "Number 1" and rest = "[Object [(''id'', Number 2)]]" and s = emptyStore]
  by (auto simp: new_EntityDispatcher_def defaultSelectId_def list_all2_Cons1)

section \<open>Key resolution of the remove commands\<close>

text \<open>
  C4 (as amended): \<^verbatim>\<open>getKey\<close> resolves an object to what the configured \<^verbatim>\<open>selectId\<close>
  gives for it and passes a raw key (number or string) through unchanged. \<^verbatim>\<open>delete\<close> and
  \<^verbatim>\<open>removeOneFromCache\<close> dispatch the result of \<^verbatim>\<open>getKey\<close> on their argument as the
  payload (and throw what \<^verbatim>\<open>selectId\<close> throws, dispatching nothing).
  \<^verbatim>\<open>removeManyFromCache\<close> resolves every element with the same \<^verbatim>\<open>getKey\<close> when the first
  element is an object; when the first element is a raw key it dispatches the array
  unchanged, so that its raw keys pass through as they are.
\<close>

theorem key_resolution_by_getKey:
  "(typeof arg = ''object'' \<longrightarrow> getKey d arg = selectId d arg) \<and>
   (is_key arg \<longrightarrow> getKey d arg = Inr arg) \<and>
   (getKey d arg = Inr k \<longrightarrow>
      delete d arg s =
        (None, store_dispatch (EntityAction (entityName d) SAVE_DELETE k) s) \<and>
      removeOneFromCache d arg s =
        (None, store_dispatch (EntityAction (entityName d) REMOVE_ONE k) s)) \<and>
   (getKey d arg = Inl e \<longrightarrow>
      delete d arg s = (Some e, s) \<and> removeOneFromCache d arg s = (Some e, s)) \<and>
   (typeof a0 = ''object'' \<and> list_all2 (\<lambda>x k. getKey d x = Inr k) (a0 # rest) keys \<longrightarrow>
      removeManyFromCache d (Some (a0 # rest)) s =
        (None, store_dispatch (EntityAction (entityName d) REMOVE_MANY (Array keys)) s)) \<and>
   (is_key a0 \<longrightarrow>
      removeManyFromCache d (Some (a0 # rest)) s =
        (None, store_dispatch (EntityAction (entityName d) REMOVE_MANY (Array (a0 # rest))) s))"
proof -
  have one: "typeof arg = ''object'' \<longrightarrow> getKey d arg = selectId d arg"
    by (simp add: getKey_def)
  have two: "is_key arg \<longrightarrow> getKey d arg = Inr arg"
    by (auto simp: getKey_def is_key_def)
  have three: "getKey d arg = Inr k \<longrightarrow>
      delete d arg s =
        (None, store_dispatch (EntityAction (entityName d) SAVE_DELETE k) s) \<and>
      removeOneFromCache d arg s =
        (None, store_dispatch (EntityAction (entityName d) REMOVE_ONE k) s)"
    by (simp add: delete_def removeOneFromCache_def dispatch_def)
  have four: "getKey d arg = Inl e \<longrightarrow>
      delete d arg s = (Some e, s) \<and> removeOneFromCache d arg s = (Some e, s)"
    by (simp add: delete_def removeOneFromCache_def throw_def)
  have five: "typeof a0 = ''object'' \<and> list_all2 (\<lambda>x k. getKey d x = Inr k) (a0 # rest) keys \<longrightarrow>
      removeManyFromCache d (Some (a0 # rest)) s =
        (None, store_dispatch (EntityAction (entityName d) REMOVE_MANY (Array keys)) s)"
  proof
    assume h: "typeof a0 = ''object'' \<and> list_all2 (\<lambda>x k. getKey d x = Inr k) (a0 # rest) keys"
    then have "array_map (getKey d) (a0 # rest) = Inr keys"
      by (simp only: array_map_Inr_iff)
    with h show "removeManyFromCache d (Some (a0 # rest)) s =
        (None, store_dispatch (EntityAction (entityName d) REMOVE_MANY (Array keys)) s)"
      by (simp add: removeManyFromCache_def dispatch_def)
  qed
  have six: "is_key a0 \<longrightarrow>
      removeManyFromCache d (Some (a0 # rest)) s =
        (None, store_dispatch (EntityAction (entityName d) REMOVE_MANY (Array (a0 # rest))) s)"
    by (auto simp: removeManyFromCache_def dispatch_def is_key_def)
  show ?thesis
    using one two three four five six by (intro conjI) assumption+
qed

theorem key_resolution_by_getKey_witness:
  "delete (new_EntityDispatcher ''Hero'' None)
       (Object [(''id'', Number 1), (''name'', String ''A'')]) emptyStore =
     (None, store_dispatch (EntityAction ''Hero'' SAVE_DELETE (Number 1)) emptyStore) \<and>
   removeOneFromCache (new_EntityDispatcher ''Hero'' None) (String ''k'') emptyStore =
     (None, store_dispatch (EntityAction ''Hero'' REMOVE_ONE (String ''k'')) emptyStore) \<and>
   delete (new_EntityDispatcher ''Hero'' None) Null emptyStore = (Some TypeError, emptyStore) \<and>
   removeManyFromCache (new_EntityDispatcher ''Hero'' None)
       (Some [Object [(''id'', Number 1)], Number 2]) emptyStore =
     (None, store_dispatch
        (EntityAction ''Hero'' REMOVE_MANY (Array [Number 1, Number 2])) emptyStore) \<and>
   removeManyFromCache (new_EntityDispatcher ''Hero'' None)
       (Some [String ''k'', Number 2]) emptyStore =
     (None, store_dispatch
        (EntityAction ''Hero'' REMOVE_MANY (Array [String ''k'', Number 2])) emptyStore)"
  using
    key_resolution_by_getKey [where d = "new_EntityDispatcher ''Hero'' None"
      and arg = "Object [(''id'', Number 1), (''name'', String ''A'')]" and k = "Number 1"
      and ?a0.0 = "Object [(''id'', Number 1)]" and rest = "[Number 2]"
      and keys = "[Number 1, Number 2]" and s = emptyStore]
    key_resolution_by_getKey [where d = "new_EntityDispatcher ''Hero'' None"
      and arg = "String ''k''" and k = "String ''k''"
      and ?a0.0 = "String ''k''" and rest = "[Number 2]" and s = emptyStore]
    key_resolution_by_getKey [where d = "new_EntityDispatcher ''Hero'' None"
      and arg = Null and e = TypeError and s = emptyStore]
  by (simp add: is_key_def new_EntityDispatcher_def defaultSelectId_def getKey_def)

text \<open>
  C4 as stated fails: the entity that follows a raw key in the argument of
  \<^verbatim>\<open>removeManyFromCache\<close> is dispatched as it is, although \<^verbatim>\<open>selectId\<close> gives the key
  \<open>7\<close> for it.
\<close>

theorem removeManyFromCache_entity_after_key_counterexample:
  "action_payload (last (dispatched (snd (removeManyFromCache (new_EntityDispatcher ''Hero'' None)
       (Some [String ''a'', Object [(''id'', Number 7)]]) emptyStore)))) =
     Array [String ''a'', Object [(''id'', Number 7)]] \<and>
   selectId (new_EntityDispatcher ''Hero'' None) (Object [(''id'', Number 7)]) = Inr (Number 7) \<and>
   typeof (Object [(''id'', Number 7)]) = ''object''"
  by (simp add: removeManyFromCache_def dispatch_def store_dispatch_def
      new_EntityDispatcher_def defaultSelectId_def)

section \<open>Payloads of the update commands\<close>

lemma toUpdate_all:
  "list_all2 (\<lambda>e k. selectId d e = Inr k) es ks \<Longrightarrow>
   array_map (toUpdate d) es =
     Inr (map2 (\<lambda>e k. Object [(''id'', k), (''changes'', e)]) es ks)"
  by (induction rule: list_all2_induct) (simp_all add: toUpdate_def)

text \<open>
  C5: for a partial entity \<open>e\<close> for which the configured \<^verbatim>\<open>selectId\<close> returns \<open>k\<close>,
  \<^verbatim>\<open>update\<close> and \<^verbatim>\<open>updateOneInCache\<close> dispatch the payload
  \<^verbatim>\<open>{ id: k, changes: e }\<close>, with \<open>e\<close> itself as the changes; \<^verbatim>\<open>updateManyInCache\<close> on a
  non-empty array dispatches the array of these records, element by element.
\<close>

theorem update_payload_is_Update_record:
  "(selectId d e = Inr k \<longrightarrow>
      toUpdate d e = Inr (Object [(''id'', k), (''changes'', e)]) \<and>
      update d e s =
        (None, store_dispatch
           (EntityAction (entityName d) SAVE_UPDATE (Object [(''id'', k), (''changes'', e)])) s) \<and>
      updateOneInCache d e s =
        (None, store_dispatch
           (EntityAction (entityName d) UPDATE_ONE (Object [(''id'', k), (''changes'', e)])) s)) \<and>
   (es \<noteq> [] \<and> list_all2 (\<lambda>e k. selectId d e = Inr k) es ks \<longrightarrow>
      updateManyInCache d (Some es) s =
        (None, store_dispatch
           (EntityAction (entityName d) UPDATE_MANY
              (Array (map2 (\<lambda>e k. Object [(''id'', k), (''changes'', e)]) es ks))) s))"
proof (intro conjI impI)
  assume "selectId d e = Inr k"
  then show "toUpdate d e = Inr (Object [(''id'', k), (''changes'', e)])"
    and "update d e s =
        (None, store_dispatch
           (EntityAction (entityName d) SAVE_UPDATE (Object [(''id'', k), (''changes'', e)])) s)"
    and "updateOneInCache d e s =
        (None, store_dispatch
           (EntityAction (entityName d) UPDATE_ONE (Object [(''id'', k), (''changes'', e)])) s)"
    by (simp_all add: toUpdate_def update_def updateOneInCache_def dispatch_def)
next
  assume h: "es \<noteq> [] \<and> list_all2 (\<lambda>e k. selectId d e = Inr k) es ks"
  then have "array_map (toUpdate d) es =
      Inr (map2 (\<lambda>e k. Object [(''id'', k), (''changes'', e)]) es ks)"
    by (simp add: toUpdate_all)
  with h show "updateManyInCache d (Some es) s =
        (None, store_dispatch
           (EntityAction (entityName d) UPDATE_MANY
              (Array (map2 (\<lambda>e k. Object [(''id'', k), (''changes'', e)]) es ks))) s)"
    by (cases es) (simp_all add: updateManyInCache_def dispatch_def)
qed

theorem update_payload_is_Update_record_witness:
  "update (new_EntityDispatcher ''Hero'' None)
       (Object [(''id'', Number 1), (''name'', String ''B'')]) emptyStore =
     (None, store_dispatch
        (EntityAction ''Hero'' SAVE_UPDATE
           (Object [(''id'', Number 1),
                    (''changes'', Object [(''id'', Number 1), (''name'', String ''B'')])]))
        emptyStore) \<and>
   updateManyInCache (new_EntityDispatcher ''Hero'' None)
       (Some [Object [(''id'', Number 1), (''name'', String ''B'')],
              Object [(''id'', Number 2)]]) emptyStore =
     (None, store_dispatch
        (EntityAction ''Hero'' UPDATE_MANY
           (Array [Object [(''id'', Number 1),
                     (''changes'', Object [(''id'', Number 1), (''name'', String ''B'')])],
                   Object [(''id'', Number 2), (''changes'', Object [(''id'', Number 2)])]]))
        emptyStore)"
  using
    update_payload_is_Update_record [where d = "new_EntityDispatcher ''Hero'' None"
      and e = "Object [(''id'', Number 1), (''name'', String ''B'')]" and k = "Number 1"
      and es = "[Object [(''id'', Number 1), (''name'', String ''B'')],
                 Object [(''id'', Number 2)]]"
      and ks = "[Number 1, Number 2]" and s = emptyStore]
  by (simp add: new_EntityDispatcher_def defaultSelectId_def)

section \<open>Errors of the update commands\<close>

text \<open>
  C1 (as amended): an update command does not check the key that \<^verbatim>\<open>selectId\<close> returns. It
  throws to its caller exactly when the configured \<^verbatim>\<open>selectId\<close> itself throws on the
  argument (for \<^verbatim>\<open>updateManyInCache\<close>: on an element of the array), and then nothing is
  dispatched. When \<^verbatim>\<open>selectId\<close> returns \<^verbatim>\<open>undefined\<close>, as the default one does for an
  object without an \<^verbatim>\<open>id\<close> field, the command returns normally and dispatches its action
  with the \<^verbatim>\<open>undefined\<close> id.
\<close>

theorem update_throws_only_what_selectId_throws:
  "(selectId d e = Inl err \<longrightarrow>
      update d e s = (Some err, s) \<and> updateOneInCache d e s = (Some err, s)) \<and>
   (fst (update d e s) \<noteq> None) = (\<exists>err. selectId d e = Inl err) \<and>
   (fst (updateOneInCache d e s) \<noteq> None) = (\<exists>err. selectId d e = Inl err) \<and>
   (fst (updateManyInCache d (Some es) s) \<noteq> None) =
     (\<exists>e \<in> set es. \<exists>err. selectId d e = Inl err) \<and>
   (fst (updateManyInCache d (Some es) s) \<noteq> None \<longrightarrow>
      snd (updateManyInCache d (Some es) s) = s) \<and>
   (selectId d e = Inr Undefined \<longrightarrow>
      update d e s =
        (None, store_dispatch
           (EntityAction (entityName d) SAVE_UPDATE
              (Object [(''id'', Undefined), (''changes'', e)])) s) \<and>
      updateOneInCache d e s =
        (None, store_dispatch
           (EntityAction (entityName d) UPDATE_ONE
              (Object [(''id'', Undefined), (''changes'', e)])) s) \<and>
      updateManyInCache d (Some [e]) s =
        (None, store_dispatch
           (EntityAction (entityName d) UPDATE_MANY
              (Array [Object [(''id'', Undefined), (''changes'', e)]])) s))"
proof -
  have toUpdate_Inl: "(\<exists>err. toUpdate d x = Inl err) = (\<exists>err. selectId d x = Inl err)" for x
    by (auto simp: toUpdate_def split: sum.splits)
  have raise: "selectId d e = Inl err \<longrightarrow>
      update d e s = (Some err, s) \<and> updateOneInCache d e s = (Some err, s)"
    by (simp add: update_def updateOneInCache_def toUpdate_def throw_def)
  have one: "(fst (update d e s) \<noteq> None) = (\<exists>err. selectId d e = Inl err)"
    by (cases "selectId d e") (simp_all add: update_def toUpdate_def throw_def dispatch_def)
  have one_cache: "(fst (updateOneInCache d e s) \<noteq> None) = (\<exists>err. selectId d e = Inl err)"
    by (cases "selectId d e")
      (simp_all add: updateOneInCache_def toUpdate_def throw_def dispatch_def)
  have many_fst: "(fst (updateManyInCache d (Some es) s) \<noteq> None) =
      (\<exists>err. array_map (toUpdate d) es = Inl err)"
    by (cases es; cases "array_map (toUpdate d) es")
      (simp_all add: updateManyInCache_def return_void_def throw_def dispatch_def)
  have many: "(fst (updateManyInCache d (Some es) s) \<noteq> None) =
      (\<exists>e \<in> set es. \<exists>err. selectId d e = Inl err)"
    by (simp only: many_fst array_map_Inl_iff toUpdate_Inl)
  have many_snd: "fst (updateManyInCache d (Some es) s) \<noteq> None \<longrightarrow>
      snd (updateManyInCache d (Some es) s) = s"
    by (cases es; cases "array_map (toUpdate d) es")
      (simp_all add: updateManyInCache_def return_void_def throw_def dispatch_def)
  have undef: "selectId d e = Inr Undefined \<longrightarrow>
      update d e s =
        (None, store_dispatch
           (EntityAction (entityName d) SAVE_UPDATE
              (Object [(''id'', Undefined), (''changes'', e)])) s) \<and>
      updateOneInCache d e s =
        (None, store_dispatch
           (EntityAction (entityName d) UPDATE_ONE
              (Object [(''id'', Undefined), (''changes'', e)])) s) \<and>
      updateManyInCache d (Some [e]) s =
        (None, store_dispatch
           (EntityAction (entityName d) UPDATE_MANY
              (Array [Object [(''id'', Undefined), (''changes'', e)]])) s)"
    by (simp add: update_def updateOneInCache_def updateManyInCache_def toUpdate_def
        dispatch_def)
  show ?thesis
    using raise one one_cache many many_snd undef by (intro conjI) assumption+
qed

theorem update_throws_only_what_selectId_throws_witness:
  "update (new_EntityDispatcher ''Hero'' None) Null emptyStore = (Some TypeError, emptyStore) \<and>
   fst (updateManyInCache (new_EntityDispatcher ''Hero'' None)
      (Some [Object [(''id'', Number 1)], Null]) emptyStore) \<noteq> None \<and>
   snd (updateManyInCache (new_EntityDispatcher ''Hero'' None)
      (Some [Object [(''id'', Number 1)], Null]) emptyStore) = emptyStore \<and>
   updateOneInCache (new_EntityDispatcher ''Hero'' None)
       (Object [(''name'', String ''B'')]) emptyStore =
     (None, store_dispatch
        (EntityAction ''Hero'' UPDATE_ONE
           (Object [(''id'', Undefined), (''changes'', Object [(''name'', String ''B'')])]))
        emptyStore)"
  using
    update_throws_only_what_selectId_throws [where d = "new_EntityDispatcher ''Hero'' None"
      and e = Null and err = TypeError
      and es = "[Object [(''id'', Number 1)], Null]" and s = emptyStore]
    update_throws_only_what_selectId_throws [where d = "new_EntityDispatcher ''Hero'' None"
      and e = "Object [(''name'', String ''B'')]" and s = emptyStore]
  by (simp add: new_EntityDispatcher_def defaultSelectId_def)

text \<open>
  C1 as stated fails: \<^verbatim>\<open>update\<close> of a partial entity without its key field, with the
  default \<^verbatim>\<open>selectId\<close>, returns normally and dispatches a \<^verbatim>\<open>SAVE_UPDATE\<close> action whose
  id is \<^verbatim>\<open>undefined\<close>.
\<close>

theorem update_missing_key_counterexample:
  "update (new_EntityDispatcher ''Hero'' None) (Object [(''name'', String ''B'')]) emptyStore =
     (None, store_dispatch
        (EntityAction ''Hero'' SAVE_UPDATE
           (Object [(''id'', Undefined), (''changes'', Object [(''name'', String ''B'')])]))
        emptyStore) \<and>
   selectId (new_EntityDispatcher ''Hero'' None) (Object [(''name'', String ''B'')]) =
     Inr Undefined"
  by (simp add: update_def toUpdate_def dispatch_def new_EntityDispatcher_def
      defaultSelectId_def)

section \<open>Dispatches per call\<close>

text \<open>
  C2 (as amended): one call of a public command method, for every input, dispatches at
  most one action, appended to the queue of the store, and returns or throws at once.
  It dispatches none exactly when it throws (an error of \<^verbatim>\<open>selectId\<close>) or when it is
  \<^verbatim>\<open>removeManyFromCache\<close> or \<^verbatim>\<open>updateManyInCache\<close> called with an absent or empty array;
  in every other case it dispatches exactly one.
\<close>

theorem invoke_dispatches_at_most_once:
  "snd (invoke d c s) = s\<lparr>dispatched := dispatched s @ new_actions s (snd (invoke d c s))\<rparr> \<and>
   length (new_actions s (snd (invoke d c s))) \<le> 1 \<and>
   (new_actions s (snd (invoke d c s)) = []) = (fst (invoke d c s) \<noteq> None \<or> guarded_noop c) \<and>
   (fst (invoke d c s) = None \<and> \<not> guarded_noop c \<longrightarrow>
      length (new_actions s (snd (invoke d c s))) = 1)"
proof -
  obtain r acts where len: "length acts \<le> Suc 0"
    and run: "\<forall>s. invoke d c s = (r, s\<lparr>dispatched := dispatched s @ acts\<rparr>)"
    and none: "(acts = []) = (r \<noteq> None \<or> guarded_noop c)"
    using invoke_outcome [of d c] by blast
  have "invoke d c s = (r, s\<lparr>dispatched := dispatched s @ acts\<rparr>)"
    using run by blast
  then have "snd (invoke d c s) = s\<lparr>dispatched := dispatched s @ acts\<rparr>"
    and "fst (invoke d c s) = r"
    and "new_actions s (snd (invoke d c s)) = acts"
    by simp_all
  moreover have "r = None \<and> \<not> guarded_noop c \<longrightarrow> length acts = 1"
    using len none by (cases acts) auto
  ultimately show ?thesis
    using len none by simp
qed

theorem invoke_dispatches_at_most_once_witness:
  "new_actions emptyStore
     (snd (invoke (new_EntityDispatcher ''Hero'' None) (Add (Object [(''id'', Number 1)])) emptyStore)) =
     [EntityAction ''Hero'' SAVE_ADD (Object [(''id'', Number 1)])] \<and>
   length (new_actions emptyStore
     (snd (invoke (new_EntityDispatcher ''Hero'' None) (Add (Object [(''id'', Number 1)])) emptyStore))) = 1"
  using invoke_dispatches_at_most_once [where d = "new_EntityDispatcher ''Hero'' None"
      and c = "Add (Object [(''id'', Number 1)])" and s = emptyStore]
  by (simp add: guarded_noop_def add_def dispatch_def store_dispatch_def)

text \<open>
  C2 as stated fails: \<^verbatim>\<open>removeManyFromCache\<close> called with the empty array returns
  normally and has dispatched no action.
\<close>

theorem invoke_empty_array_counterexample:
  "invoke (new_EntityDispatcher ''Hero'' None) (RemoveManyFromCache (Some [])) emptyStore =
     (None, emptyStore) \<and>
   new_actions emptyStore
     (snd (invoke (new_EntityDispatcher ''Hero'' None) (RemoveManyFromCache (Some [])) emptyStore)) = []"
  by (simp add: removeManyFromCache_def return_void_def new_actions_def)

section \<open>Independence of the cache\<close>

text \<open>
  C7: no command reads the cache. Two calls of the same command method with the same
  arguments, from stores with whatever cache states and queues, end the same way
  (both return, or both throw the same error) and dispatch the same actions.
\<close>

theorem dispatch_independent_of_cache:
  "fst (invoke d c s1) = fst (invoke d c s2) \<and>
   new_actions s1 (snd (invoke d c s1)) = new_actions s2 (snd (invoke d c s2))"
proof -
  obtain r acts where
    run: "\<forall>s. invoke d c s = (r, s\<lparr>dispatched := dispatched s @ acts\<rparr>)"
    using invoke_outcome [of d c] by blast
  have "invoke d c s1 = (r, s1\<lparr>dispatched := dispatched s1 @ acts\<rparr>)"
    and "invoke d c s2 = (r, s2\<lparr>dispatched := dispatched s2 @ acts\<rparr>)"
    using run by blast+
  then show ?thesis by simp
qed

section \<open>The default key selector\<close>

text \<open>
  C8: without a configured \<^verbatim>\<open>selectId\<close>, a dispatcher made by the constructor and one
  made by \<^verbatim>\<open>createEntityDispatcher\<close> both extract the key by reading the \<^verbatim>\<open>id\<close> field of
  the entity: for an entity object the result is the value of its \<^verbatim>\<open>id\<close> property
  (\<^verbatim>\<open>undefined\<close> when it has none), and \<^verbatim>\<open>getKey\<close> resolves an entity object to it.
\<close>

theorem default_selectId_reads_id:
  "selectId (new_EntityDispatcher name None) e = getProp e ''id'' \<and>
   selectId (createEntityDispatcher name None) e = getProp e ''id'' \<and>
   selectId (new_EntityDispatcher name None) (Object ps) =
     Inr (case map_of ps ''id'' of None \<Rightarrow> Undefined | Some v \<Rightarrow> v) \<and>
   selectId (createEntityDispatcher name None) (Object ps) =
     Inr (case map_of ps ''id'' of None \<Rightarrow> Undefined | Some v \<Rightarrow> v) \<and>
   getKey (new_EntityDispatcher name None) (Object ps) =
     Inr (case map_of ps ''id'' of None \<Rightarrow> Undefined | Some v \<Rightarrow> v) \<and>
   getKey (createEntityDispatcher name None) (Object ps) =
     Inr (case map_of ps ''id'' of None \<Rightarrow> Undefined | Some v \<Rightarrow> v)"
  by (simp add: new_EntityDispatcher_def createEntityDispatcher_def defaultSelectId_def
      getKey_def split: option.splits)

section \<open>Default values of the live views\<close>

text \<open>
  C6: while the cache of the store has no collection for the entity type, the live views
  created without a default collection state emit the empty sequence for the entities,
  \<open>False\<close> for loading and \<^verbatim>\<open>undefined\<close> for an extension field; the views created
  with a default collection state emit the values of the fields of that state. Reading
  a view leaves the store as it is: the cache still has no collection for the type.
\<close>

theorem selectors_S_default_before_initialization:
  "state s name = None \<longrightarrow>
     entities_S (create_EntitySelectors_S name None) s = [] \<and>
     loading_S (create_EntitySelectors_S name None) s = False \<and>
     field_S (create_EntitySelectors_S name None) f s = Undefined \<and>
     entities_S (create_EntitySelectors_S name (Some dflt)) s = selectEntities dflt \<and>
     loading_S (create_EntitySelectors_S name (Some dflt)) s = loading dflt \<and>
     field_S (create_EntitySelectors_S name (Some dflt)) f s = selectField f dflt \<and>
     snd (subscribe (entities_S (create_EntitySelectors_S name (Some dflt))) s) = s \<and>
     snd (subscribe (loading_S (create_EntitySelectors_S name (Some dflt))) s) = s \<and>
     snd (subscribe (field_S (create_EntitySelectors_S name (Some dflt)) f) s) = s \<and>
     state (snd (subscribe (entities_S (create_EntitySelectors_S name (Some dflt))) s)) name = None"
  by (simp add: create_EntitySelectors_S_def createCachedCollectionSelector_def
      createEmptyEntityCollection_def selectEntities_def selectLoading_def selectField_def
      subscribe_def)

theorem selectors_S_default_before_initialization_witness:
  "state emptyStore ''Hero'' = None \<and>
   entities_S (create_EntitySelectors_S ''Hero'' None) emptyStore = [] \<and>
   loading_S (create_EntitySelectors_S ''Hero'' None) emptyStore = False \<and>
   field_S (create_EntitySelectors_S ''Hero'' None) ''foo'' emptyStore = Undefined \<and>
   entities_S (create_EntitySelectors_S ''Hero'' (Some defaultHeroState)) emptyStore =
     [Object [(''id'', Number 1), (''name'', String ''A'')]] \<and>
   loading_S (create_EntitySelectors_S ''Hero'' (Some defaultHeroState)) emptyStore = False \<and>
   field_S (create_EntitySelectors_S ''Hero'' (Some defaultHeroState)) ''foo'' emptyStore =
     String ''foo foo'' \<and>
   state (snd (subscribe
     (entities_S (create_EntitySelectors_S ''Hero'' (Some defaultHeroState))) emptyStore)) ''Hero'' = None"
proof -
  have h: "state emptyStore ''Hero'' = None"
    by (simp add: emptyStore_def emptyCache_def)
  show ?thesis
    using h selectors_S_default_before_initialization [where s = emptyStore
        and name = "''Hero''" and f = "''foo''" and dflt = defaultHeroState]
    by (simp add: selectEntities_def selectField_def defaultHeroState_def)
qed

end
